theory Spec2Isabelle
  imports Main
begin

section \<open>SC.SparseArray: a lazily populated array with a delegate\<close>

text \<open>
  A shallow embedding of \<^verbatim>\<open>frameworks/runtime/system/sparse_array.js\<close>.
  Every method of the class is one definition below, with the receiver's fields passed
  and returned as a record, the attached delegate passed as an argument (the value of
  \<^verbatim>\<open>this.delegate\<close> when the method is called), and every exception the JavaScript
  raises returned as \<open>Inl\<close>.
\<close>

subsection \<open>JavaScript values\<close>

text \<open>
  Element values. Numbers that occur in the class are indices and lengths, so \<open>Num\<close>
  carries an integer; objects are compared by identity, which \<open>Obj\<close> carries.
\<close>

datatype jsval = Undefined | Null | Bool bool | Num int | Str string | Obj nat

text \<open>The values JavaScript treats as true in a condition (\<^verbatim>\<open>!x\<close> is its negation).\<close>

fun js_truthy :: "jsval \<Rightarrow> bool" where
  "js_truthy Undefined = False"
| "js_truthy Null = False"
| "js_truthy (Bool b) = b"
| "js_truthy (Num n) = (n \<noteq> 0)"
| "js_truthy (Str t) = (t \<noteq> [])"
| "js_truthy (Obj r) = True"

text \<open>
  A list of slots, \<open>None\<close> being a hole (a key that was never assigned). Reading a hole
  or reading beyond the end gives \<^verbatim>\<open>undefined\<close>; assigning beyond the end extends the
  list with holes.
\<close>

definition slot_get :: "jsval option list \<Rightarrow> nat \<Rightarrow> jsval" where
  "slot_get xs i =
     (if i < length xs then (case xs ! i of None \<Rightarrow> Undefined | Some v \<Rightarrow> v) else Undefined)"

definition slot_set :: "jsval option list \<Rightarrow> nat \<Rightarrow> jsval \<Rightarrow> jsval option list" where
  "slot_set xs i v =
     (if i < length xs then xs[i := Some v]
      else xs @ replicate (i - length xs) None @ [Some v])"

text \<open>
  A native array. Only the keys below \<open>2^32 - 1\<close> are array indices: \<open>elems\<close> holds
  them, and its length is the \<^verbatim>\<open>length\<close> of the array. A larger number used as a key
  names a plain property of the array object: assigning to it stores the value and leaves
  \<^verbatim>\<open>length\<close> alone. \<open>extra\<close> holds these properties, the key \<open>2^32 - 1 + m\<close> at
  position \<open>m\<close>.
\<close>

definition js_array_limit :: nat where
  "js_array_limit = 4294967295"

record jsarray =
  elems :: "jsval option list"
  extra :: "jsval option list"

definition js_empty :: jsarray where
  "js_empty = \<lparr>elems = [], extra = []\<rparr>"

definition js_array :: "jsval option list \<Rightarrow> jsarray" where
  "js_array xs = \<lparr>elems = xs, extra = []\<rparr>"

definition js_length :: "jsarray \<Rightarrow> nat" where
  "js_length a = length (elems a)"

definition js_get :: "jsarray \<Rightarrow> nat \<Rightarrow> jsval" where
  "js_get a i =
     (if i < js_array_limit then slot_get (elems a) i
      else slot_get (extra a) (i - js_array_limit))"

definition js_set :: "jsarray \<Rightarrow> nat \<Rightarrow> jsval \<Rightarrow> jsarray" where
  "js_set a i v =
     (if i < js_array_limit then a\<lparr>elems := slot_set (elems a) i v\<rparr>
      else a\<lparr>extra := slot_set (extra a) (i - js_array_limit) v\<rparr>)"

text \<open>
  \<^verbatim>\<open>Array.prototype.indexOf\<close>: the first array index whose slot holds a value strictly
  equal to the one searched, holes skipped, \<open>-1\<close> when there is none.
\<close>

fun js_indexOf_from :: "nat \<Rightarrow> jsval option list \<Rightarrow> jsval \<Rightarrow> int" where
  "js_indexOf_from k [] obj = -1"
| "js_indexOf_from k (x # xs) obj = (if x = Some obj then int k else js_indexOf_from (Suc k) xs obj)"

definition js_indexOf :: "jsarray \<Rightarrow> jsval \<Rightarrow> int" where
  "js_indexOf a obj = js_indexOf_from 0 (elems a) obj"

text \<open>The exceptions the class can raise.\<close>

datatype js_error = ReferenceError string | TypeError string

subsection \<open>The receiver's state\<close>

text \<open>
  \<^verbatim>\<open>_length\<close> is a number, \<^verbatim>\<open>null\<close> (after \<^verbatim>\<open>reset\<close>) or \<^verbatim>\<open>undefined\<close> (never set).
\<close>

datatype jslen = LenUndefined | LenNull | LenNum int

text \<open>
  What the class tells its collaborators. A call of a delegate method is recorded with
  the arguments it was given; \<open>AThis\<close> is the sparse array itself.
\<close>

datatype arg = AThis | AVal jsval | ARange nat nat | AArray "jsval list"

datatype notification =
    EnumerableContentDidChange "(nat \<times> nat) option"
  | PropertyWillChange string
  | PropertyDidChange string

text \<open>
  The fields of the object. \<^verbatim>\<open>_sa_content\<close> is \<^verbatim>\<open>null\<close> or a reference to a native
  array; arrays live in \<open>heap\<close>, because \<^verbatim>\<open>objectAt\<close> keeps a reference to the array in
  a local variable while the delegate runs. \<open>calls\<close> and \<open>notifications\<close> are the
  record of what was sent to the delegate and to the observers.
\<close>

record sa_state =
  heap :: "nat \<Rightarrow> jsarray"
  next_ref :: nat
  sa_content :: "nat option"
  sa_length :: jslen
  rangeWindowSize :: int
  calls :: "(string \<times> arg list) list"
  notifications :: "notification list"

text \<open>
  A delegate method receives its arguments and finds the object in some state; it
  returns a value and leaves the object in a state of its choice (it may call
  \<^verbatim>\<open>provideLength\<close>, \<^verbatim>\<open>provideObjectsInRange\<close> and so on before it returns).
\<close>

type_synonym callback = "arg list \<Rightarrow> sa_state \<Rightarrow> jsval \<times> sa_state"

text \<open>
  A delegate is an object with any of the six methods the class looks for. \<open>del\<close> is
  its property of that name, which \<^verbatim>\<open>indexOf\<close> reads: \<open>None\<close> when the delegate has
  no such property.
\<close>

datatype delegate = Delegate
  (sparseArrayDidRequestLength: "callback option")
  (sparseArrayDidRequestRange: "callback option")
  (sparseArrayDidRequestIndex: "callback option")
  (sparseArrayDidRequestIndexOf: "callback option")
  (sparseArrayShouldReplace: "callback option")
  (sparseArrayDidReset: "callback option")
  (del: "delegate option")

definition invoke :: "string \<Rightarrow> callback \<Rightarrow> arg list \<Rightarrow> sa_state \<Rightarrow> jsval \<times> sa_state" where
  "invoke name f args s = f args (s\<lparr>calls := calls s @ [(name, args)]\<rparr>)"

subsection \<open>Collaborators that are not part of the file\<close>

text \<open>
  Modelled from the spec: \<^verbatim>\<open>SC.none\<close> (the runtime's core, not among the sources) is
  true of \<^verbatim>\<open>null\<close> and \<^verbatim>\<open>undefined\<close>, the two values of an unresolved length.
\<close>

fun SC_none :: "jslen \<Rightarrow> bool" where
  "SC_none LenUndefined = True"
| "SC_none LenNull = True"
| "SC_none (LenNum n) = False"

text \<open>
  Modelled from the spec: \<^verbatim>\<open>SC.maxRange\<close> (the runtime's core, not among the sources)
  is the end of the half-open range \<open>[start, start + length)\<close>.
\<close>

definition SC_maxRange :: "nat \<times> nat \<Rightarrow> nat" where
  "SC_maxRange rng = fst rng + snd rng"

text \<open>
  Modelled from the spec: \<^verbatim>\<open>enumerableContentDidChange\<close>, \<^verbatim>\<open>propertyWillChange\<close> and
  \<^verbatim>\<open>propertyDidChange\<close> (the observable and enumerable mixins, not among the sources)
  emit a content-change notification, optionally scoped to a range, and the two halves
  of a property change.
\<close>

definition enumerableContentDidChange :: "(nat \<times> nat) option \<Rightarrow> sa_state \<Rightarrow> sa_state" where
  "enumerableContentDidChange rng s =
     s\<lparr>notifications := notifications s @ [EnumerableContentDidChange rng]\<rparr>"

definition propertyWillChange :: "string \<Rightarrow> sa_state \<Rightarrow> sa_state" where
  "propertyWillChange key s = s\<lparr>notifications := notifications s @ [PropertyWillChange key]\<rparr>"

definition propertyDidChange :: "string \<Rightarrow> sa_state \<Rightarrow> sa_state" where
  "propertyDidChange key s = s\<lparr>notifications := notifications s @ [PropertyDidChange key]\<rparr>"



text \<open>
  Modelled from the spec: \<^verbatim>\<open>Array.prototype.replace\<close> (the array mixin, not among the
  sources) splices the array at \<open>idx\<close>, removing \<open>amt\<close> elements and inserting
  \<open>objects\<close> in order, and shifts every element cached at a later key by
  \<open>length objects - amt\<close>. The splice clamps as the native one does: beyond the end
  nothing is removed and the objects are appended. \<open>all_slots\<close> is the array seen as
  one list of slots over all its keys, which is what the splice works on.
\<close>

definition splice :: "jsval option list \<Rightarrow> nat \<Rightarrow> nat \<Rightarrow> jsval list \<Rightarrow> jsval option list" where
  "splice xs idx amt objects = take idx xs @ map Some objects @ drop (idx + amt) xs"

definition all_slots :: "jsarray \<Rightarrow> jsval option list" where
  "all_slots a =
     take js_array_limit (elems a) @
     (if extra a = [] then []
      else replicate (js_array_limit - length (elems a)) None @ extra a)"

definition array_replace :: "jsarray \<Rightarrow> nat \<Rightarrow> nat \<Rightarrow> jsval list \<Rightarrow> jsarray" where
  "array_replace a idx amt objects =
     (let v = splice (all_slots a) idx amt objects
      in \<lparr>elems = take js_array_limit v, extra = drop js_array_limit v\<rparr>)"

subsection \<open>Length support\<close>

text \<open>
  The getter of the \<^verbatim>\<open>length\<close> property:
  \<^verbatim>\<open>if (del && SC.none(this._length) && del.sparseArrayDidRequestLength)
    del.sparseArrayDidRequestLength(this);
  return this._length || 0;\<close>
\<close>

definition length_prop :: "delegate option \<Rightarrow> sa_state \<Rightarrow> int \<times> sa_state" where
  "length_prop dlg s =
     (let s1 =
        (case dlg of
           None \<Rightarrow> s
         | Some d \<Rightarrow>
             if SC_none (sa_length s) then
               (case sparseArrayDidRequestLength d of
                  None \<Rightarrow> s
                | Some f \<Rightarrow> snd (invoke ''sparseArrayDidRequestLength'' f [AThis] s))
             else s)
      in ((case sa_length s1 of LenNum n \<Rightarrow> n | _ \<Rightarrow> 0), s1))"


subsection \<open>Reading content\<close>

text \<open>
  \<^verbatim>\<open>var content = this._sa_content; if (!content) content = this._sa_content = [];\<close>
  opens four of the methods: the reference to the array, a fresh empty array being
  allocated and stored when there is none.
\<close>

definition content_or_new :: "sa_state \<Rightarrow> nat \<times> sa_state" where
  "content_or_new s =
     (case sa_content s of
        Some r \<Rightarrow> (r, s)
      | None \<Rightarrow>
          (next_ref s,
           s\<lparr>heap := (heap s)(next_ref s := js_empty),
             next_ref := Suc (next_ref s),
             sa_content := Some (next_ref s)\<rparr>))"

text \<open>
  \<^verbatim>\<open>while(--len >= 0) del.sparseArrayDidRequestIndex(start + len);\<close>
\<close>

fun request_each :: "callback \<Rightarrow> nat \<Rightarrow> nat \<Rightarrow> sa_state \<Rightarrow> sa_state" where
  "request_each g start 0 s = s"
| "request_each g start (Suc len) s =
     request_each g start len
       (snd (invoke ''sparseArrayDidRequestIndex'' g [AVal (Num (int (start + len)))] s))"

text \<open>
  \<^verbatim>\<open>requestIndex\<close>. The window adjustment
  \<^verbatim>\<open>if (len > 1) start = Math.floor(start / windowSize);\<close> reads the identifier
  \<^verbatim>\<open>windowSize\<close>, which is declared neither in the function nor anywhere else: evaluating
  it raises a ReferenceError.
\<close>

definition requestIndex :: "delegate option \<Rightarrow> nat \<Rightarrow> sa_state \<Rightarrow> js_error + sa_state" where
  "requestIndex dlg idx s =
     (case dlg of
        None \<Rightarrow> Inr s
      | Some d \<Rightarrow>
          (let len = rangeWindowSize s; start = idx in
           if len > 1 then Inl (ReferenceError ''windowSize'')
           else
             (let len = (if len < 1 then 1 else len) in
              case sparseArrayDidRequestRange d of
                Some f \<Rightarrow>
                  Inr (snd (invoke ''sparseArrayDidRequestRange'' f [AThis, ARange start (nat len)] s))
              | None \<Rightarrow>
                  (case sparseArrayDidRequestIndex d of
                     Some g \<Rightarrow> Inr (request_each g start (nat len) s)
                   | None \<Rightarrow> Inr s))))"

text \<open>
  \<^verbatim>\<open>objectAt\<close>: the second read goes through the local variable \<^verbatim>\<open>content\<close>, the
  array referenced before the delegate ran.
\<close>

definition objectAt :: "delegate option \<Rightarrow> nat \<Rightarrow> sa_state \<Rightarrow> js_error + (jsval \<times> sa_state)" where
  "objectAt dlg idx s =
     (let (content, s1) = content_or_new s;
          ret = js_get (heap s1 content) idx
      in if ret = Undefined then
           (case requestIndex dlg idx s1 of
              Inl e \<Rightarrow> Inl e
            | Inr s2 \<Rightarrow> Inr (js_get (heap s2 content) idx, s2))
         else Inr (ret, s1))"


text \<open>
  \<^verbatim>\<open>while(--len >= 0) content[start+len] = array[len];\<close>
\<close>

fun provide_loop :: "nat \<Rightarrow> nat \<Rightarrow> jsarray \<Rightarrow> jsarray \<Rightarrow> jsarray" where
  "provide_loop start 0 array content = content"
| "provide_loop start (Suc len) array content =
     provide_loop start len array (js_set content (start + len) (js_get array len))"

definition provideObjectsInRange :: "nat \<times> nat \<Rightarrow> jsarray \<Rightarrow> sa_state \<Rightarrow> sa_state" where
  "provideObjectsInRange rng array s =
     (let (content, s1) = content_or_new s;
          start = fst rng; len = snd rng;
          s2 = s1\<lparr>heap := (heap s1)(content := provide_loop start len array (heap s1 content))\<rparr>
      in enumerableContentDidChange None s2)"

text \<open>
  \<^verbatim>\<open>provideObjectAtIndex\<close> fills the two scratch objects of the prototype, an array
  whose first element is the object and a range of length 1 starting at the index.
\<close>

definition provideObjectAtIndex :: "nat \<Rightarrow> jsval \<Rightarrow> sa_state \<Rightarrow> sa_state" where
  "provideObjectAtIndex index object s =
     provideObjectsInRange (index, 1) (js_array [Some object]) s"

text \<open>
  \<^verbatim>\<open>while (--loc>=start) content[loc] = undefined;\<close>
\<close>

fun clear_loop :: "nat \<Rightarrow> nat \<Rightarrow> jsarray \<Rightarrow> jsarray" where
  "clear_loop start 0 content = content"
| "clear_loop start (Suc loc) content =
     (if loc \<ge> start then clear_loop start loc (js_set content loc Undefined) else content)"

definition objectsDidChangeInRange :: "nat \<times> nat \<Rightarrow> sa_state \<Rightarrow> sa_state" where
  "objectsDidChangeInRange rng s =
     (let s1 =
        (case sa_content s of
           None \<Rightarrow> s
         | Some content \<Rightarrow>
             if fst rng = 0 \<and> SC_maxRange rng \<ge> js_length (heap s content)
             then s\<lparr>sa_content := None\<rparr>
             else
               (let start = fst rng;
                    loc = min (start + snd rng) (js_length (heap s content))
                in s\<lparr>heap := (heap s)(content := clear_loop start loc (heap s content))\<rparr>))
      in enumerableContentDidChange (Some rng) s1)"

text \<open>
  \<^verbatim>\<open>indexOf\<close>. With a delegate that has the method, the call is
  \<^verbatim>\<open>del.del.sparseArrayDidRequestIndexOf(this, obj)\<close>: the method is looked up on the
  delegate's property \<^verbatim>\<open>del\<close>, and reading a property of \<^verbatim>\<open>undefined\<close>, or calling
  what is not a function, raises a TypeError.
\<close>

definition indexOf :: "delegate option \<Rightarrow> jsval \<Rightarrow> sa_state \<Rightarrow> js_error + (jsval \<times> sa_state)" where
  "indexOf dlg obj s =
     (if (case dlg of None \<Rightarrow> False | Some d \<Rightarrow> sparseArrayDidRequestIndexOf d \<noteq> None) then
        (case del (the dlg) of
           None \<Rightarrow> Inl (TypeError ''del.del is undefined'')
         | Some d2 \<Rightarrow>
             (case sparseArrayDidRequestIndexOf d2 of
                None \<Rightarrow> Inl (TypeError ''del.del.sparseArrayDidRequestIndexOf is not a function'')
              | Some f \<Rightarrow> Inr (invoke ''sparseArrayDidRequestIndexOf'' f [AThis, AVal obj] s)))
      else
        (let (content, s1) = content_or_new s
         in Inr (Num (js_indexOf (heap s1 content) obj), s1)))"

subsection \<open>Editing\<close>

text \<open>
  The second half of \<^verbatim>\<open>replace\<close>, from \<^verbatim>\<open>// go ahead and apply to local content\<close>
  on: the splice, the length update between \<^verbatim>\<open>propertyWillChange\<close> and
  \<^verbatim>\<open>propertyDidChange\<close> when \<^verbatim>\<open>delta!==0 && !SC.none(this._length)\<close>, and the
  notification.
\<close>

definition replace_apply :: "nat \<Rightarrow> nat \<Rightarrow> jsval list \<Rightarrow> sa_state \<Rightarrow> sa_state" where
  "replace_apply idx amt objects s =
     (let (content, s1) = content_or_new s;
          s2 = s1\<lparr>heap := (heap s1)(content := array_replace (heap s1 content) idx amt objects)\<rparr>;
          delta = int (length objects) - int amt;
          s3 =
            (case sa_length s2 of
               LenNum n \<Rightarrow>
                 if delta \<noteq> 0
                 then propertyDidChange ''length''
                        ((propertyWillChange ''length'' s2)\<lparr>sa_length := LenNum (n + delta)\<rparr>)
                 else s2
             | _ \<Rightarrow> s2)
      in enumerableContentDidChange None s3)"

text \<open>
  \<^verbatim>\<open>replace\<close>: \<^verbatim>\<open>objects = objects || []\<close>, then the permission of the delegate:
  \<^verbatim>\<open>if (del) { if (!del.sparseArrayShouldReplace ||
      !del.sparseArrayShouldReplace(this, idx, amt, objects)) return this; }\<close>
\<close>

definition replace :: "delegate option \<Rightarrow> nat \<Rightarrow> nat \<Rightarrow> jsval list option \<Rightarrow> sa_state \<Rightarrow> sa_state" where
  "replace dlg idx amt objects0 s =
     (let objects = (case objects0 of None \<Rightarrow> [] | Some os \<Rightarrow> os) in
      case dlg of
        None \<Rightarrow> replace_apply idx amt objects s
      | Some d \<Rightarrow>
          (case sparseArrayShouldReplace d of
             None \<Rightarrow> s
           | Some f \<Rightarrow>
               (let (ok, s1) =
                      invoke ''sparseArrayShouldReplace'' f
                        [AThis, AVal (Num (int idx)), AVal (Num (int amt)), AArray objects] s
                in if \<not> js_truthy ok then s1 else replace_apply idx amt objects s1)))"


subsection \<open>Construction\<close>

text \<open>
  \<^verbatim>\<open>SC.SparseArray.create()\<close>: no content, no length, a window of 1, nothing sent yet.
  \<^verbatim>\<open>SC.SparseArray.array(len)\<close> creates the array with \<^verbatim>\<open>_length: len||0\<close>.
\<close>

definition create :: sa_state where
  "create =
     \<lparr>heap = (\<lambda>r. js_empty), next_ref = 0, sa_content = None, sa_length = LenUndefined,
      rangeWindowSize = 1, calls = [], notifications = []\<rparr>"

definition SparseArray_array :: "jslen \<Rightarrow> sa_state" where
  "SparseArray_array len = create\<lparr>sa_length := (case len of LenNum n \<Rightarrow> LenNum n | _ \<Rightarrow> LenNum 0)\<rparr>"

text \<open>What the cache holds at an index: the read \<^verbatim>\<open>content[idx]\<close> of the current array.\<close>

definition content_at :: "sa_state \<Rightarrow> nat \<Rightarrow> jsval" where
  "content_at s i = (case sa_content s of None \<Rightarrow> Undefined | Some r \<Rightarrow> js_get (heap s r) i)"

subsection \<open>Example delegates\<close>

text \<open>
  Delegates used to run the methods on concrete inputs: \<open>answer v\<close> is a method that
  returns \<open>v\<close> and does not touch the array; the delegates below have one method each, or
  none.
\<close>

definition answer :: "jsval \<Rightarrow> callback" where
  "answer v args s = (v, s)"

definition no_methods :: delegate where
  "no_methods = Delegate None None None None None None None"


definition only_range :: delegate where
  "only_range = Delegate None (Some (answer Undefined)) None None None None None"

definition only_index :: delegate where
  "only_index = Delegate None None (Some (answer Undefined)) None None None None"

definition only_indexOf :: delegate where
  "only_indexOf = Delegate None None None (Some (answer (Num 4))) None None None"

definition vetoing :: delegate where
  "vetoing = Delegate None None None None (Some (answer (Bool False))) None None"

definition permitting :: delegate where
  "permitting = Delegate None None None None (Some (answer (Bool True))) None None"




text \<open>An array of length 5 with the five elements 0, 10, 20, 30, 40 provided.\<close>

definition five :: sa_state where
  "five =
     provideObjectsInRange (0, 5)
       (js_array [Some (Num 0), Some (Num 10), Some (Num 20), Some (Num 30), Some (Num 40)])
       (SparseArray_array (LenNum 5))"

section \<open>Properties\<close>

subsection \<open>Native arrays\<close>

lemma slot_get_slot_set: "slot_get (slot_set c i v) j = (if j = i then v else slot_get c j)"
  by (auto simp: slot_get_def slot_set_def nth_append nth_list_update split: option.splits)

lemma js_get_js_set: "js_get (js_set c i v) j = (if j = i then v else js_get c j)"
  by (auto simp: js_get_def js_set_def slot_get_slot_set)

lemma js_get_empty: "js_get js_empty j = Undefined"
  by (simp add: js_get_def js_empty_def slot_get_def)

lemma provide_loop_get:
  "js_get (provide_loop start len arr c) j =
     (if start \<le> j \<and> j < start + len then js_get arr (j - start) else js_get c j)"
proof (induction len arbitrary: c)
  case 0
  show ?case by auto
next
  case (Suc len)
  have "js_get (provide_loop start (Suc len) arr c) j =
          (if start \<le> j \<and> j < start + len then js_get arr (j - start)
           else if j = start + len then js_get arr len else js_get c j)"
    by (simp add: Suc.IH js_get_js_set)
  also have "\<dots> = (if start \<le> j \<and> j < start + Suc len then js_get arr (j - start) else js_get c j)"
    by auto
  finally show ?case .
qed


lemma splice_get:
  assumes "idx + amt \<le> j"
  shows "slot_get (splice c idx amt objects) (j + length objects - amt) = slot_get c j"
proof (cases "j < length c")
  case True
  define m where "m = j - (idx + amt)"
  have j: "j = idx + amt + m" using assms by (simp add: m_def)
  have len: "length (take idx c) = idx" using True j by simp
  have k: "j + length objects - amt = length (take idx c) + (length (map Some objects) + m)"
    using j len by simp
  have "splice c idx amt objects ! (j + length objects - amt) = drop (idx + amt) c ! m"
    unfolding splice_def k by (simp only: nth_append_length_plus)
  also have "\<dots> = c ! j" using True j by simp
  finally have nth: "splice c idx amt objects ! (j + length objects - amt) = c ! j" .
  have "j + length objects - amt < length (splice c idx amt objects)"
    using True j by (simp add: splice_def)
  with nth True show ?thesis by (simp add: slot_get_def)
next
  case False
  have "length (splice c idx amt objects) \<le> j + length objects - amt"
    using assms False by (simp add: splice_def)
  with False show ?thesis by (simp add: slot_get_def)
qed

lemma slot_get_all_slots: "slot_get (all_slots a) k = js_get a k"
proof (cases "k < js_array_limit")
  case True
  show ?thesis
  proof (cases "k < length (elems a)")
    case inside: True
    with True have "all_slots a ! k = elems a ! k" and "k < length (all_slots a)"
      by (simp_all add: all_slots_def nth_append)
    with True inside show ?thesis
      by (simp add: slot_get_def js_get_def)
  next
    case False
    with True have "slot_get (all_slots a) k = Undefined"
      by (auto simp: all_slots_def slot_get_def nth_append)
    with True False show ?thesis
      by (simp add: slot_get_def js_get_def)
  qed
next
  case False
  show ?thesis
  proof (cases "extra a = []")
    case True
    have "length (all_slots a) \<le> js_array_limit"
      using True by (simp add: all_slots_def)
    with False True show ?thesis
      by (simp add: slot_get_def js_get_def)
  next
    case nonempty: False
    define pre where "pre = take js_array_limit (elems a) @
        replicate (js_array_limit - length (elems a)) None"
    have lp: "length pre = js_array_limit"
      by (simp add: pre_def)
    have as: "all_slots a = pre @ extra a"
      using nonempty by (simp add: all_slots_def pre_def)
    have "slot_get (pre @ extra a) k = slot_get (extra a) (k - js_array_limit)"
      using False lp by (auto simp: slot_get_def nth_append)
    with False as show ?thesis
      by (simp add: js_get_def)
  qed
qed

lemma js_get_split:
  "js_get \<lparr>elems = take js_array_limit v, extra = drop js_array_limit v\<rparr> k = slot_get v k"
  by (auto simp: js_get_def slot_get_def)

lemma js_get_array_replace:
  "js_get (array_replace a idx amt objects) k = slot_get (splice (all_slots a) idx amt objects) k"
  by (simp add: array_replace_def Let_def js_get_split)

lemma array_replace_get:
  assumes "idx + amt \<le> j"
  shows "js_get (array_replace a idx amt objects) (j + length objects - amt) = js_get a j"
  unfolding js_get_array_replace using splice_get [OF assms] by (simp add: slot_get_all_slots)

lemma array_replace_small:
  assumes "extra a = []" and "length (elems a) + length objects \<le> js_array_limit"
  shows "array_replace a idx amt objects = \<lparr>elems = splice (elems a) idx amt objects, extra = []\<rparr>"
proof -
  have v: "all_slots a = elems a"
    using assms by (simp add: all_slots_def)
  have "length (splice (elems a) idx amt objects) \<le> js_array_limit"
    using assms(2) by (simp add: splice_def)
  then show ?thesis
    by (simp add: array_replace_def Let_def v)
qed


subsection \<open>Facts about single methods\<close>

lemma objectAt_no_delegate:
  "objectAt None i s = Inr (content_at s i, snd (content_or_new s))"
  by (auto simp: objectAt_def requestIndex_def content_or_new_def content_at_def js_get_empty
      Let_def split: option.splits)


lemma objectAt_hit:
  "content_at s i \<noteq> Undefined \<Longrightarrow> objectAt dlg i s = Inr (content_at s i, s)"
  by (auto simp: objectAt_def content_or_new_def content_at_def split: option.splits)


lemma content_at_provideObjectsInRange:
  "content_at (provideObjectsInRange (a, n) vals s) j =
     (if a \<le> j \<and> j < a + n then js_get vals (j - a) else content_at s j)"
  by (auto simp: provideObjectsInRange_def content_or_new_def content_at_def
      enumerableContentDidChange_def provide_loop_get js_get_empty split: option.splits)



lemma content_at_replace_apply_raw:
  "content_at (replace_apply idx amt objects s) k =
     js_get (array_replace (case sa_content s of None \<Rightarrow> js_empty | Some r \<Rightarrow> heap s r) idx amt objects) k"
  by (simp add: replace_apply_def content_or_new_def content_at_def
      enumerableContentDidChange_def propertyWillChange_def propertyDidChange_def
      Let_def split: jslen.splits option.splits)

lemma content_at_replace_apply:
  assumes "idx + amt \<le> j"
  shows "content_at (replace_apply idx amt objects s) (j + length objects - amt) = content_at s j"
proof -
  have "content_at s j = js_get (case sa_content s of None \<Rightarrow> js_empty | Some r \<Rightarrow> heap s r) j"
    by (simp add: content_at_def js_get_empty split: option.splits)
  then show ?thesis
    using array_replace_get [OF assms] by (simp only: content_at_replace_apply_raw)
qed

lemma small_index: "k < 5 \<Longrightarrow> k < js_array_limit"
  by (simp add: js_array_limit_def)

lemma five_eq:
  "five = \<lparr>heap = (\<lambda>r. js_empty)
        (0 := js_array [Some (Num 0), Some (Num 10), Some (Num 20), Some (Num 30), Some (Num 40)]),
      next_ref = 1, sa_content = Some 0, sa_length = LenNum 5, rangeWindowSize = 1,
      calls = [], notifications = [EnumerableContentDidChange None]\<rparr>"
  by (simp add: five_def SparseArray_array_def create_def provideObjectsInRange_def
      content_or_new_def enumerableContentDidChange_def js_get_def js_set_def js_array_def
      js_empty_def small_index slot_get_def slot_set_def eval_nat_numeral)

lemma requestIndex_window_raises:
  "1 < rangeWindowSize s \<Longrightarrow> requestIndex (Some d) idx s = Inl (ReferenceError ''windowSize'')"
  by (simp add: requestIndex_def)


lemma requestIndex_returns:
  "dlg = None \<or> rangeWindowSize s \<le> 1 \<Longrightarrow> \<exists>s'. requestIndex dlg idx s = Inr s'"
  by (auto simp: requestIndex_def Let_def split: option.splits)

lemma indexOf_local:
  "dlg = None \<or> (\<exists>d. dlg = Some d \<and> sparseArrayDidRequestIndexOf d = None) \<Longrightarrow>
   indexOf dlg obj s =
     Inr (Num (js_indexOf (case sa_content s of None \<Rightarrow> js_empty | Some r \<Rightarrow> heap s r) obj),
          snd (content_or_new s))"
  by (auto simp: indexOf_def content_or_new_def split: option.splits)

lemma notifications_replace_apply:
  "notifications (replace_apply idx amt objs s) =
     notifications s @
     (if int (length objs) - int amt \<noteq> 0 \<and> \<not> SC_none (sa_length s)
      then [PropertyWillChange ''length'', PropertyDidChange ''length''] else []) @
     [EnumerableContentDidChange None]"
  by (cases "sa_length s")
    (simp_all add: replace_apply_def content_or_new_def enumerableContentDidChange_def
      propertyWillChange_def propertyDidChange_def Let_def split: option.splits)

lemma sa_length_replace_apply:
  "sa_length (replace_apply idx amt objs s) =
     (case sa_length s of LenNum n \<Rightarrow> LenNum (n + (int (length objs) - int amt)) | l \<Rightarrow> l)"
  by (cases "sa_length s")
    (simp_all add: replace_apply_def content_or_new_def enumerableContentDidChange_def
      propertyWillChange_def propertyDidChange_def Let_def split: option.splits)






lemma clear_loop_nothing: "loc \<le> start \<Longrightarrow> clear_loop start loc c = c"
  by (cases loc) simp_all

lemma objectsDidChangeInRange_beyond_length:
  assumes "sa_content s = Some r" and "0 < a" and "js_length (heap s r) \<le> a"
  shows "content_at (objectsDidChangeInRange (a, n) s) j = content_at s j"
proof -
  have "clear_loop a (min (a + n) (js_length (heap s r))) (heap s r) = heap s r"
    using assms(3) by (simp add: clear_loop_nothing)
  with assms(1,2) show ?thesis
    by (simp add: objectsDidChangeInRange_def content_at_def enumerableContentDidChange_def
        Let_def)
qed



text \<open>
  A key that is not an array index lies beyond the \<^verbatim>\<open>length\<close> that bounds the loop of
  \<^verbatim>\<open>objectsDidChangeInRange\<close>: a value provided at the key \<open>2^32 - 1\<close> is still there
  after the range \<open>(2^32 - 1, 1)\<close> was invalidated.
\<close>

lemma plain_property_survives_invalidation:
  "content_at (objectsDidChangeInRange (js_array_limit, 1)
      (provideObjectAtIndex js_array_limit (Str ''x'') five)) js_array_limit = Str ''x''"
proof -
  let ?s = "provideObjectAtIndex js_array_limit (Str ''x'') five"
  have c: "sa_content ?s = Some 0"
    by (simp add: provideObjectAtIndex_def provideObjectsInRange_def content_or_new_def
        enumerableContentDidChange_def five_eq)
  have l: "js_length (heap ?s 0) \<le> js_array_limit"
    by (simp add: provideObjectAtIndex_def provideObjectsInRange_def content_or_new_def
        enumerableContentDidChange_def five_eq js_set_def js_length_def js_array_def
        js_array_limit_def)
  have p: "0 < js_array_limit"
    by (simp add: js_array_limit_def)
  have "content_at ?s js_array_limit = Str ''x''"
    by (simp add: provideObjectAtIndex_def content_at_provideObjectsInRange js_get_def
        js_array_def slot_get_def p)
  then show ?thesis
    using objectsDidChangeInRange_beyond_length [OF c p l] by simp
qed

section \<open>The claims\<close>

text \<open>
  C1. A read miss at index \<open>i\<close> with \<^verbatim>\<open>rangeWindowSize\<close> \<open>w > 1\<close> should request the
  aligned window \<open>(floor (i / w) * w, w)\<close>; with \<open>w = 5\<close> a miss at index 7 should
  request \<open>(5, 5)\<close>. The code does not: reading index 7 of an empty array with a window
  of 5 and a delegate that has \<^verbatim>\<open>sparseArrayDidRequestRange\<close> raises a ReferenceError for
  the undeclared \<^verbatim>\<open>windowSize\<close>, and no request reaches the delegate.
\<close>

theorem objectAt_window_5_index_7_raises:
  "objectAt (Some only_range) 7 (create\<lparr>rangeWindowSize := 5\<rparr>) =
     Inl (ReferenceError ''windowSize'')"
  by (simp add: objectAt_def content_or_new_def create_def js_get_empty requestIndex_def
      only_range_def)

text \<open>
  C2, as the code has it. With a delegate attached that has no
  \<^verbatim>\<open>sparseArrayShouldReplace\<close>, \<^verbatim>\<open>replace\<close> returns at once and leaves the array as it
  was: nothing is spliced, the length is not updated and no notification is emitted.
  Only with no delegate at all does the edit go ahead without being asked for: the
  array is spliced, a length that is a number grows by \<open>length objects - amt\<close> (an
  unresolved one stays unresolved), the length change is announced when there is one,
  and the content notification is emitted.
\<close>

theorem replace_without_shouldReplace_refused:
  "let objs = (case objects of None \<Rightarrow> [] | Some os \<Rightarrow> os) in
   (sparseArrayShouldReplace d = None \<longrightarrow> replace (Some d) idx amt objects s = s) \<and>
   (\<forall>k. content_at (replace None idx amt objects s) k =
      js_get (array_replace (case sa_content s of None \<Rightarrow> js_empty | Some r \<Rightarrow> heap s r)
                idx amt objs) k) \<and>
   sa_length (replace None idx amt objects s) =
     (case sa_length s of
        LenNum n \<Rightarrow> LenNum (n + (int (length objs) - int amt))
      | l \<Rightarrow> l) \<and>
   notifications (replace None idx amt objects s) =
     notifications s @
     (if int (length objs) - int amt \<noteq> 0 \<and> \<not> SC_none (sa_length s)
      then [PropertyWillChange ''length'', PropertyDidChange ''length''] else []) @
     [EnumerableContentDidChange None]"
proof -
  have refused: "replace (Some d) idx amt objects s = s" if "sparseArrayShouldReplace d = None"
    using that by (simp add: replace_def)
  have applied: "replace None idx amt objects s =
      replace_apply idx amt (case objects of None \<Rightarrow> [] | Some os \<Rightarrow> os) s"
    by (simp add: replace_def)
  show ?thesis
    unfolding Let_def
    using refused
    by (simp add: applied content_at_replace_apply_raw notifications_replace_apply
        sa_length_replace_apply)
qed

theorem replace_without_shouldReplace_refused_witness:
  "replace (Some no_methods) 2 1 (Some [Str ''a'', Str ''b'']) five = five \<and>
   sa_length (replace None 2 1 (Some [Str ''a'', Str ''b'']) five) = LenNum 6 \<and>
   notifications (replace None 2 1 (Some [Str ''a'', Str ''b'']) five) =
     [EnumerableContentDidChange None, PropertyWillChange ''length'',
      PropertyDidChange ''length'', EnumerableContentDidChange None]"
proof -
  note t = replace_without_shouldReplace_refused
    [of "Some [Str ''a'', Str ''b'']" no_methods 2 1 five, unfolded Let_def option.case]
  have m: "sparseArrayShouldReplace no_methods = None"
    by (simp add: no_methods_def)
  have l: "sa_length five = LenNum 5" and n: "notifications five = [EnumerableContentDidChange None]"
    by (simp_all add: five_eq)
  have 1: "replace (Some no_methods) 2 1 (Some [Str ''a'', Str ''b'']) five = five"
    using t [THEN conjunct1] m by simp
  have 2: "sa_length (replace None 2 1 (Some [Str ''a'', Str ''b'']) five) = LenNum 6"
    using t [THEN conjunct2, THEN conjunct2, THEN conjunct1] by (simp add: l)
  have 3: "notifications (replace None 2 1 (Some [Str ''a'', Str ''b'']) five) =
     [EnumerableContentDidChange None, PropertyWillChange ''length'',
      PropertyDidChange ''length'', EnumerableContentDidChange None]"
    using t [THEN conjunct2, THEN conjunct2, THEN conjunct2] by (simp add: l n)
  from 1 2 3 show ?thesis by blast
qed

text \<open>
  C2, as stated, fails: inserting one element into a fresh array does nothing when a
  delegate without methods is attached, while without a delegate the element is stored
  and a notification is emitted.
\<close>

theorem replace_not_as_without_delegate:
  "replace (Some no_methods) 0 0 (Some [Num 7]) create = create \<and>
   content_at (replace None 0 0 (Some [Num 7]) create) 0 = Num 7 \<and>
   notifications (replace None 0 0 (Some [Num 7]) create) = [EnumerableContentDidChange None]"
proof -
  have 1: "replace (Some no_methods) 0 0 (Some [Num 7]) create = create"
    by (simp add: replace_def no_methods_def)
  have "array_replace js_empty 0 0 [Num 7] = \<lparr>elems = splice [] 0 0 [Num 7], extra = []\<rparr>"
    using array_replace_small [of js_empty "[Num 7]" 0 0]
    by (simp add: js_empty_def js_array_limit_def)
  then have 2: "content_at (replace None 0 0 (Some [Num 7]) create) 0 = Num 7"
    by (simp add: replace_def content_at_replace_apply_raw create_def js_get_def splice_def
        slot_get_def js_array_limit_def)
  have 3: "notifications (replace None 0 0 (Some [Num 7]) create) = [EnumerableContentDidChange None]"
    by (simp add: replace_def notifications_replace_apply create_def)
  from 1 2 3 show ?thesis by blast
qed

text \<open>
  C3. When the delegate's \<^verbatim>\<open>sparseArrayShouldReplace\<close> answers with a falsy value,
  \<^verbatim>\<open>replace\<close> returns without doing anything after the answer: the array is in the
  state in which the delegate's method left it. So if that method only answers (it
  leaves the array as it found it, the call being recorded), the cache contents, the
  length and the notifications are exactly those before the call.
\<close>

theorem replace_veto_atomic:
  assumes "sparseArrayShouldReplace d = Some f"
    and "args = [AThis, AVal (Num (int idx)), AVal (Num (int amt)),
                 AArray (case objects of None \<Rightarrow> [] | Some os \<Rightarrow> os)]"
    and "\<not> js_truthy (fst (invoke ''sparseArrayShouldReplace'' f args s))"
  shows "replace (Some d) idx amt objects s = snd (invoke ''sparseArrayShouldReplace'' f args s) \<and>
         (snd (f args (s\<lparr>calls := calls s @ [(''sparseArrayShouldReplace'', args)]\<rparr>)) =
            s\<lparr>calls := calls s @ [(''sparseArrayShouldReplace'', args)]\<rparr> \<longrightarrow>
          (\<forall>i. content_at (replace (Some d) idx amt objects s) i = content_at s i) \<and>
          heap (replace (Some d) idx amt objects s) = heap s \<and>
          sa_content (replace (Some d) idx amt objects s) = sa_content s \<and>
          sa_length (replace (Some d) idx amt objects s) = sa_length s \<and>
          notifications (replace (Some d) idx amt objects s) = notifications s)"
proof -
  have r: "replace (Some d) idx amt objects s = snd (invoke ''sparseArrayShouldReplace'' f args s)"
    using assms by (simp add: replace_def case_prod_beta Let_def)
  show ?thesis
    unfolding r by (simp add: invoke_def content_at_def split: option.splits)
qed

theorem replace_veto_atomic_witness:
  "replace (Some vetoing) 2 1 (Some [Str ''a'', Str ''b'']) five =
     five\<lparr>calls := [(''sparseArrayShouldReplace'',
        [AThis, AVal (Num 2), AVal (Num 1), AArray [Str ''a'', Str ''b'']])]\<rparr> \<and>
   content_at (replace (Some vetoing) 2 1 (Some [Str ''a'', Str ''b'']) five) 2 = Num 20 \<and>
   sa_length (replace (Some vetoing) 2 1 (Some [Str ''a'', Str ''b'']) five) = LenNum 5 \<and>
   notifications (replace (Some vetoing) 2 1 (Some [Str ''a'', Str ''b'']) five) = notifications five"
  using replace_veto_atomic [of vetoing "answer (Bool False)"
      "[AThis, AVal (Num 2), AVal (Num 1), AArray [Str ''a'', Str ''b'']]" 2 1
      "Some [Str ''a'', Str ''b'']" five]
  by (simp add: vetoing_def answer_def invoke_def five_eq content_at_def js_get_def js_array_def
      js_array_limit_def slot_get_def)

text \<open>
  C4. An authorized \<^verbatim>\<open>replace\<close> (no delegate attached, or the delegate's
  \<^verbatim>\<open>sparseArrayShouldReplace\<close> answered with a truthy value and left the array in
  the state \<open>s1\<close>) on an array whose length is a number \<open>n\<close>, with
  \<open>delta = objects.length - amt\<close> not zero: the length becomes \<open>n + delta\<close>, between
  one \<^verbatim>\<open>propertyWillChange\<close> and one \<^verbatim>\<open>propertyDidChange\<close> of \<^verbatim>\<open>length\<close> that are
  followed by the content notification, and what the cache held at an index
  \<open>j \<ge> idx + amt\<close> it now holds at \<open>j + delta\<close>.
\<close>

theorem replace_length_delta:
  assumes "dlg = None \<and> s1 = s \<or>
           (\<exists>d f. dlg = Some d \<and> sparseArrayShouldReplace d = Some f \<and>
              js_truthy (fst (invoke ''sparseArrayShouldReplace'' f
                 [AThis, AVal (Num (int idx)), AVal (Num (int amt)), AArray objects] s)) \<and>
              s1 = snd (invoke ''sparseArrayShouldReplace'' f
                 [AThis, AVal (Num (int idx)), AVal (Num (int amt)), AArray objects] s))"
    and "sa_length s1 = LenNum n"
    and "delta = int (length objects) - int amt"
    and "delta \<noteq> 0"
  shows "sa_length (replace dlg idx amt (Some objects) s) = LenNum (n + delta) \<and>
         notifications (replace dlg idx amt (Some objects) s) =
           notifications s1 @ [PropertyWillChange ''length'', PropertyDidChange ''length'',
                               EnumerableContentDidChange None] \<and>
         (\<forall>j. idx + amt \<le> j \<longrightarrow>
            content_at (replace dlg idx amt (Some objects) s) (nat (int j + delta)) = content_at s1 j)"
proof -
  have r: "replace dlg idx amt (Some objects) s = replace_apply idx amt objects s1"
    using assms(1) by (auto simp: replace_def case_prod_beta Let_def)
  have len: "sa_length (replace_apply idx amt objects s1) = LenNum (n + delta)"
    using assms(2,3,4)
    by (simp add: replace_apply_def content_or_new_def enumerableContentDidChange_def
        propertyWillChange_def propertyDidChange_def Let_def split: option.splits)
  have nots: "notifications (replace_apply idx amt objects s1) =
      notifications s1 @ [PropertyWillChange ''length'', PropertyDidChange ''length'',
                          EnumerableContentDidChange None]"
    using assms(2,3,4)
    by (simp add: replace_apply_def content_or_new_def enumerableContentDidChange_def
        propertyWillChange_def propertyDidChange_def Let_def split: option.splits)
  have shift: "content_at (replace_apply idx amt objects s1) (nat (int j + delta)) = content_at s1 j"
    if "idx + amt \<le> j" for j
  proof -
    have "nat (int j + delta) = j + length objects - amt"
      using that assms(3) by simp
    then show ?thesis
      using content_at_replace_apply [OF that] by simp
  qed
  show ?thesis
    unfolding r using len nots shift by simp
qed

theorem replace_length_delta_witness:
  "sa_length five = LenNum 5 \<and>
   sa_length (replace None 2 1 (Some [Str ''a'', Str ''b'']) five) = LenNum 6 \<and>
   notifications (replace None 2 1 (Some [Str ''a'', Str ''b'']) five) =
     notifications five @ [PropertyWillChange ''length'', PropertyDidChange ''length'',
                           EnumerableContentDidChange None] \<and>
   content_at five 3 = Num 30 \<and>
   content_at (replace None 2 1 (Some [Str ''a'', Str ''b'']) five) 4 = Num 30 \<and>
   content_at five 4 = Num 40 \<and>
   content_at (replace None 2 1 (Some [Str ''a'', Str ''b'']) five) 5 = Num 40 \<and>
   sa_length (replace (Some permitting) 2 1 (Some [Str ''a'', Str ''b'']) five) = LenNum 6"
proof -
  have five3: "content_at five 3 = Num 30" and five4: "content_at five 4 = Num 40"
    and len5: "sa_length five = LenNum 5"
    by (simp_all add: five_eq content_at_def js_get_def js_array_def js_array_limit_def
        slot_get_def)
  note t = replace_length_delta [of None five five 2 1 "[Str ''a'', Str ''b'']" 5 1]
  have c: "sa_length (replace None 2 1 (Some [Str ''a'', Str ''b'']) five) = LenNum (5 + 1) \<and>
     notifications (replace None 2 1 (Some [Str ''a'', Str ''b'']) five) =
       notifications five @ [PropertyWillChange ''length'', PropertyDidChange ''length'',
                             EnumerableContentDidChange None] \<and>
     (\<forall>j. 2 + 1 \<le> j \<longrightarrow>
        content_at (replace None 2 1 (Some [Str ''a'', Str ''b'']) five) (nat (int j + 1)) =
        content_at five j)"
    using t len5 by simp
  from c have sh: "content_at (replace None 2 1 (Some [Str ''a'', Str ''b'']) five) (nat (int j + 1)) =
      content_at five j" if "3 \<le> j" for j
    using that by simp
  have s3: "content_at (replace None 2 1 (Some [Str ''a'', Str ''b'']) five) 4 = content_at five 3"
    using sh [of 3] by simp
  have s4: "content_at (replace None 2 1 (Some [Str ''a'', Str ''b'']) five) 5 = content_at five 4"
    using sh [of 4] by simp
  let ?args = "[AThis, AVal (Num (int 2)), AVal (Num (int 1)), AArray [Str ''a'', Str ''b'']]"
  let ?s1 = "snd (invoke ''sparseArrayShouldReplace'' (answer (Bool True)) ?args five)"
  have yes: "js_truthy (fst (invoke ''sparseArrayShouldReplace'' (answer (Bool True)) ?args five))"
    and len1: "sa_length ?s1 = LenNum 5"
    by (simp_all add: invoke_def answer_def five_eq)
  have m: "sparseArrayShouldReplace permitting = Some (answer (Bool True))"
    by (simp add: permitting_def)
  have auth: "Some permitting = None \<and> ?s1 = five \<or>
      (\<exists>d f. Some permitting = Some d \<and> sparseArrayShouldReplace d = Some f \<and>
         js_truthy (fst (invoke ''sparseArrayShouldReplace'' f ?args five)) \<and>
         ?s1 = snd (invoke ''sparseArrayShouldReplace'' f ?args five))"
    using m yes by blast
  have p: "sa_length (replace (Some permitting) 2 1 (Some [Str ''a'', Str ''b'']) five) = LenNum 6"
    using replace_length_delta [OF auth len1, of 1] by simp
  show ?thesis
    using c s3 s4 five3 five4 len5 p by simp
qed

text \<open>
  C5. With a delegate that has \<^verbatim>\<open>sparseArrayDidRequestIndexOf\<close>, \<^verbatim>\<open>indexOf\<close> should
  return what that method returns. The code does not: the delegate below answers 4, and
  the call raises a TypeError, because the method is called on \<^verbatim>\<open>del.del\<close>.
\<close>

theorem indexOf_with_delegate_method_raises:
  "indexOf (Some only_indexOf) (Num 40) five = Inl (TypeError ''del.del is undefined'')"
  by (simp add: indexOf_def only_indexOf_def)

text \<open>
  C6. With a delegate that has \<^verbatim>\<open>sparseArrayDidRequestIndex\<close> and not
  \<^verbatim>\<open>sparseArrayDidRequestRange\<close>, each call of the method should receive the array as
  its first argument. The code does not pass it: a read miss at index 3 calls the method
  once, with the index as its only argument.
\<close>

theorem requestIndex_passes_only_the_index:
  "map_sum id (\<lambda>(v, s). calls s) (objectAt (Some only_index) 3 create) =
     Inr [(''sparseArrayDidRequestIndex'', [AVal (Num 3)])]"
  by (simp add: objectAt_def content_or_new_def create_def js_get_empty requestIndex_def
      only_index_def answer_def invoke_def)










text \<open>
  C10, as the code has it. \<^verbatim>\<open>objectAt\<close> does not look at the length. Without a
  delegate it returns what the cache holds at the index, so \<^verbatim>\<open>undefined\<close> where nothing
  was provided, and raises nothing; with a delegate it raises nothing either when the
  window is at most 1 or the index is populated. The length query answers 0, and changes
  nothing, when the length is unresolved and no delegate with
  \<^verbatim>\<open>sparseArrayDidRequestLength\<close> is attached.
\<close>

theorem objectAt_never_out_of_range:
  "map_sum id fst (objectAt None i s) = Inr (content_at s i) \<and>
   (dlg = None \<or> rangeWindowSize s \<le> 1 \<or> content_at s i \<noteq> Undefined \<longrightarrow>
      (\<exists>v s'. objectAt dlg i s = Inr (v, s'))) \<and>
   (SC_none (sa_length s) \<and>
    (dlg = None \<or> (\<exists>d. dlg = Some d \<and> sparseArrayDidRequestLength d = None)) \<longrightarrow>
      length_prop dlg s = (0, s))"
proof -
  have 1: "map_sum id fst (objectAt None i s) = Inr (content_at s i)"
    by (simp add: objectAt_no_delegate)
  have 2: "\<exists>v s'. objectAt dlg i s = Inr (v, s')"
    if "dlg = None \<or> rangeWindowSize s \<le> 1 \<or> content_at s i \<noteq> Undefined"
  proof (cases "content_at s i = Undefined")
    case False
    then show ?thesis
      using objectAt_hit [of s i dlg] by simp
  next
    case True
    have "rangeWindowSize (snd (content_or_new s)) = rangeWindowSize s"
      by (simp add: content_or_new_def split: option.splits)
    with that True have "dlg = None \<or> rangeWindowSize (snd (content_or_new s)) \<le> 1"
      by simp
    then obtain s2 where "requestIndex dlg i (snd (content_or_new s)) = Inr s2"
      using requestIndex_returns by blast
    then show ?thesis
      by (simp add: objectAt_def case_prod_beta Let_def)
  qed
  have 3: "length_prop dlg s = (0, s)"
    if "SC_none (sa_length s) \<and>
        (dlg = None \<or> (\<exists>d. dlg = Some d \<and> sparseArrayDidRequestLength d = None))"
    using that by (cases "sa_length s") (auto simp: length_prop_def)
  from 1 2 3 show ?thesis by blast
qed

theorem objectAt_never_out_of_range_witness:
  "map_sum id fst (objectAt None 9 create) = Inr Undefined \<and>
   (\<exists>v s'. objectAt (Some only_range) 9 create = Inr (v, s')) \<and>
   length_prop (Some no_methods) create = (0, create)"
proof -
  note t = objectAt_never_out_of_range [of 9 create "Some only_range"]
  note u = objectAt_never_out_of_range [of 9 create "Some no_methods"]
  have w: "rangeWindowSize create \<le> 1" and n: "SC_none (sa_length create)"
    and c: "content_at create 9 = Undefined"
    and m: "sparseArrayDidRequestLength no_methods = None"
    by (simp_all add: create_def content_at_def no_methods_def)
  from t c have 1: "map_sum id fst (objectAt None 9 create) = Inr Undefined"
    by simp
  from t w have 2: "\<exists>v s'. objectAt (Some only_range) 9 create = Inr (v, s')"
    by blast
  from u n m have 3: "length_prop (Some no_methods) create = (0, create)"
    by blast
  from 1 2 3 show ?thesis by blast
qed

text \<open>
  C10, as stated, fails: on an array created with length 0, a value provided at index 3
  is returned by \<^verbatim>\<open>objectAt(3)\<close>, although the index is beyond the length, which is
  still 0.
\<close>

theorem objectAt_beyond_length_returns_value:
  "fst (length_prop None (provideObjectAtIndex 3 (Num 30) (SparseArray_array (LenNum 0)))) = 0 \<and>
   map_sum id fst (objectAt None 3 (provideObjectAtIndex 3 (Num 30) (SparseArray_array (LenNum 0)))) =
     Inr (Num 30)"
proof -
  have "sa_length (provideObjectAtIndex 3 (Num 30) (SparseArray_array (LenNum 0))) = LenNum 0"
    by (simp add: provideObjectAtIndex_def provideObjectsInRange_def content_or_new_def
        enumerableContentDidChange_def SparseArray_array_def create_def)
  then have 1: "fst (length_prop None (provideObjectAtIndex 3 (Num 30) (SparseArray_array (LenNum 0)))) = 0"
    by (simp add: length_prop_def)
  have 2: "map_sum id fst (objectAt None 3 (provideObjectAtIndex 3 (Num 30) (SparseArray_array (LenNum 0)))) =
     Inr (Num 30)"
    by (simp add: objectAt_no_delegate provideObjectAtIndex_def content_at_provideObjectsInRange
        js_get_def js_array_def js_array_limit_def slot_get_def)
  from 1 2 show ?thesis by blast
qed

end
